theory Spec2Isabelle
  imports Main
begin

section \<open>Syntax trees\<close>

text \<open>
  The transform of \<^verbatim>\<open>input_function.ts\<close> reads and builds TypeScript syntax nodes.
  Only the node kinds that the transform inspects or constructs are given a constructor of
  their own; every node is an immutable value, and a node that the source hands on
  untouched is the same value in the model.
\<close>

datatype syntax_kind =
    AnyKeyword | UnknownKeyword | StringKeyword | NumberKeyword | BooleanKeyword
  | PublicKeyword | PrivateKeyword | ProtectedKeyword | ReadonlyKeyword | StaticKeyword

text \<open>
  An identifier node: its text and its \<^verbatim>\<open>original\<close> link, which is absent on a parsed
  or freshly created node and set by \<^verbatim>\<open>ts.setOriginalNode\<close>.
\<close>

datatype identifier_node = Identifier (identifier_text: string) (original: "identifier_node option")

datatype type_node =
    KeywordTypeNode syntax_kind
  | TypeReferenceNode identifier_node "type_node list"

datatype expression =
    TrueLiteral
  | FalseLiteral
  | StringLiteral string
  | NumericLiteral string
  | IdentifierExpression identifier_node
  | PropertyAccessExpression expression identifier_node
  | CallExpression expression "type_node list option" "expression list"
  | AsExpression expression type_node
  | ObjectLiteralExpression "property_assignment list"
and property_assignment =
    PropertyAssignment string expression

text \<open>\<^verbatim>\<open>ts.ModifierLike\<close>: a keyword modifier or a decorator node.\<close>

datatype modifier_like =
    Modifier syntax_kind
  | Decorator expression

text \<open>
  \<^verbatim>\<open>ts.PropertyName\<close>. Every kind but the computed one carries a \<^verbatim>\<open>text\<close> property;
  reading \<^verbatim>\<open>.text\<close> of a computed name gives \<^verbatim>\<open>undefined\<close>, which is \<open>None\<close> here.
\<close>

datatype property_name =
    IdentifierName identifier_node
  | StringLiteralName string
  | NumericLiteralName string
  | PrivateIdentifierName string
  | ComputedPropertyName expression

fun property_name_text :: "property_name \<Rightarrow> string option" where
  "property_name_text (IdentifierName i) = Some (identifier_text i)"
| "property_name_text (StringLiteralName s) = Some s"
| "property_name_text (NumericLiteralName s) = Some s"
| "property_name_text (PrivateIdentifierName s) = Some s"
| "property_name_text (ComputedPropertyName e) = None"

datatype question_token = QuestionToken

datatype exclamation_token = ExclamationToken

text \<open>
  \<^verbatim>\<open>ts.PropertyDeclaration\<close>: its modifiers, name, question token, exclamation token
  (the \<^verbatim>\<open>!\<close> of a definite assignment assertion), type and initializer.
\<close>

record property_declaration =
  modifiers :: "modifier_like list option"
  name :: property_name
  questionToken :: "question_token option"
  exclamationToken :: "exclamation_token option"
  type :: "type_node option"
  initializer :: "expression option"

section \<open>Collaborators\<close>

text \<open>
  The reflection host's view of a decorator. Its \<^verbatim>\<open>identifier\<close> is a plain identifier
  or a namespaced one \<^verbatim>\<open>ns.Name\<close> (a property access whose expression and name are both
  identifiers).
\<close>

datatype decorator_identifier =
    PlainIdentifier identifier_node
  | NamespacedIdentifier identifier_node identifier_node

record decorator =
  decoratorIdentifier :: decorator_identifier
  args :: "expression list option"

text \<open>The parsed metadata of a signal input.\<close>

record input_mapping =
  bindingPropertyName :: string
  required :: bool
  transform :: "expression option"

text \<open>The \<^verbatim>\<open>{name, value}\<close> object handed to the parser.\<close>

datatype class_member = ClassMember (member_name: "string option") (member_initializer: "expression option")

text \<open>
  A call into a collaborator either returns or throws; the transform catches nothing,
  so what a collaborator throws leaves the transform.
\<close>

datatype error = Thrown string

text \<open>
  The functions the transform calls but does not define: the host's
  \<^verbatim>\<open>getDecoratorsOfDeclaration\<close>, the imported \<^verbatim>\<open>isAngularDecorator\<close> and
  \<^verbatim>\<open>tryParseSignalInputMapping\<close>, and the import manager's
  \<^verbatim>\<open>generateNamespaceImport\<close>, which is the only one that changes state (\<open>'im\<close>).
\<close>

record ('h, 'im) environment =
  getDecoratorsOfDeclaration ::
    "'h \<Rightarrow> property_declaration \<Rightarrow> error + decorator list option"
  isAngularDecorator :: "decorator \<Rightarrow> string \<Rightarrow> bool \<Rightarrow> error + bool"
  tryParseSignalInputMapping :: "class_member \<Rightarrow> 'h \<Rightarrow> bool \<Rightarrow> error + input_mapping option"
  generateNamespaceImport :: "'im \<Rightarrow> string \<Rightarrow> error + (expression \<times> 'im)"

section \<open>The node factory\<close>

definition createTrue :: expression where
  "createTrue = TrueLiteral"

definition createFalse :: expression where
  "createFalse = FalseLiteral"

definition createStringLiteral :: "string \<Rightarrow> expression" where
  "createStringLiteral s = StringLiteral s"

definition createIdentifier :: "string \<Rightarrow> identifier_node" where
  "createIdentifier s = Identifier s None"

definition createKeywordTypeNode :: "syntax_kind \<Rightarrow> type_node" where
  "createKeywordTypeNode k = KeywordTypeNode k"

definition createPropertyAssignment :: "string \<Rightarrow> expression \<Rightarrow> property_assignment" where
  "createPropertyAssignment n v = PropertyAssignment n v"

definition createObjectLiteralExpression :: "property_assignment list \<Rightarrow> expression" where
  "createObjectLiteralExpression ps = ObjectLiteralExpression ps"

definition createAsExpression :: "expression \<Rightarrow> type_node \<Rightarrow> expression" where
  "createAsExpression e t = AsExpression e t"

definition createPropertyAccessExpression :: "expression \<Rightarrow> identifier_node \<Rightarrow> expression" where
  "createPropertyAccessExpression e n = PropertyAccessExpression e n"

definition createCallExpression ::
    "expression \<Rightarrow> type_node list option \<Rightarrow> expression list \<Rightarrow> expression" where
  "createCallExpression f ts as = CallExpression f ts as"

definition createDecorator :: "expression \<Rightarrow> modifier_like" where
  "createDecorator e = Decorator e"

text \<open>\<^verbatim>\<open>ts.setOriginalNode(node, original)\<close> on an identifier: the node with its link set.\<close>

fun setOriginalNode :: "identifier_node \<Rightarrow> identifier_node \<Rightarrow> identifier_node" where
  "setOriginalNode (Identifier s _) orig = Identifier s (Some orig)"

text \<open>
  The factory's \<^verbatim>\<open>createPropertyDeclaration\<close> builds a declaration from five arguments.
  The third is the question-or-exclamation slot: the declaration gets a question token when
  the slot holds one, an exclamation token when it holds one, and neither when it is empty.
\<close>

definition createPropertyDeclaration ::
    "modifier_like list \<Rightarrow> property_name \<Rightarrow> (question_token + exclamation_token) option \<Rightarrow>
     type_node option \<Rightarrow> expression option \<Rightarrow> property_declaration" where
  "createPropertyDeclaration ms n q t i =
     \<lparr>modifiers = Some ms,
      name = n,
      questionToken = (case q of Some (Inl k) \<Rightarrow> Some k | _ \<Rightarrow> None),
      exclamationToken = (case q of Some (Inr k) \<Rightarrow> Some k | _ \<Rightarrow> None),
      type = t,
      initializer = i\<rparr>"

text \<open>
  The factory's \<^verbatim>\<open>updatePropertyDeclaration\<close> returns the node it is given when every
  part is identical to the node's own, and otherwise a declaration created from the
  arguments. As a value both are the declaration created from the arguments; nothing of
  the old node is carried over beyond them.
\<close>

definition updatePropertyDeclaration ::
    "property_declaration \<Rightarrow> modifier_like list \<Rightarrow> property_name \<Rightarrow>
     (question_token + exclamation_token) option \<Rightarrow> type_node option \<Rightarrow> expression option \<Rightarrow>
     property_declaration" where
  "updatePropertyDeclaration node ms n q t i = createPropertyDeclaration ms n q t i"

section \<open>The transform\<close>

text \<open>
  \<^verbatim>\<open>Array.prototype.some\<close> with a callback that may throw: the elements are tested in
  order, the first hit ends the search, and a throw ends it too.
\<close>

fun some :: "('x \<Rightarrow> error + bool) \<Rightarrow> 'x list \<Rightarrow> error + bool" where
  "some p [] = Inr False"
| "some p (x # xs) =
     (case p x of
        Inl e \<Rightarrow> Inl e
      | Inr b \<Rightarrow> if b then Inr True else some p xs)"

text \<open>
  Line 36, the condition of the first \<^verbatim>\<open>if\<close>:
  \<^verbatim>\<open>host.getDecoratorsOfDeclaration(member)?.some(d => isAngularDecorator(d, 'Input', isCore))\<close>.
  On a \<^verbatim>\<open>null\<close> list the optional chain gives \<^verbatim>\<open>undefined\<close>, which the \<^verbatim>\<open>if\<close> takes
  as false.
\<close>

definition hasInputDecorator ::
    "('h, 'im) environment \<Rightarrow> 'h \<Rightarrow> property_declaration \<Rightarrow> bool \<Rightarrow> error + bool" where
  "hasInputDecorator env host member isCore =
     (case getDecoratorsOfDeclaration env host member of
        Inl e \<Rightarrow> Inl e
      | Inr None \<Rightarrow> Inr False
      | Inr (Some ds) \<Rightarrow> some (\<lambda>d. isAngularDecorator env d ''Input'' isCore) ds)"

text \<open>
  Lines 49 to 57, the \<^verbatim>\<open>fields\<close> object. \<^verbatim>\<open>Object.entries\<close> lists its keys in the
  order they were written, so the object is the list of its entries.
\<close>

definition fields :: "input_mapping \<Rightarrow> (string \<times> expression) list" where
  "fields inputMapping =
     [(''isSignal'', createTrue),
      (''alias'', createStringLiteral (bindingPropertyName inputMapping)),
      (''required'', if required inputMapping then createTrue else createFalse),
      (''transform'', IdentifierExpression (createIdentifier ''undefined''))]"

text \<open>Lines 59 to 61.\<close>

fun classDecoratorIdentifier :: "decorator \<Rightarrow> identifier_node" where
  "classDecoratorIdentifier d =
     (case decoratorIdentifier d of
        PlainIdentifier i \<Rightarrow> i
      | NamespacedIdentifier e n \<Rightarrow> e)"

text \<open>
  Lines 63 to 79, with the result of \<^verbatim>\<open>importManager.generateNamespaceImport\<close> as the
  first argument.
\<close>

definition newDecorator :: "expression \<Rightarrow> decorator \<Rightarrow> input_mapping \<Rightarrow> modifier_like" where
  "newDecorator namespaceImport decorator inputMapping =
     createDecorator
       (createCallExpression
          (createPropertyAccessExpression
             namespaceImport
             (setOriginalNode (createIdentifier ''Input'') (classDecoratorIdentifier decorator)))
          None
          [createAsExpression
             (createObjectLiteralExpression
                (map (\<lambda>(n, v). createPropertyAssignment n v) (fields inputMapping)))
             (createKeywordTypeNode AnyKeyword)])"

text \<open>
  The transform. The factory argument of the source is the node factory above; the import
  manager is passed as its state and returned with the declaration. The member's question
  token goes into the question-or-exclamation slot of \<^verbatim>\<open>updatePropertyDeclaration\<close>.
\<close>

definition signalInputsTransform ::
    "('h, 'im) environment \<Rightarrow> property_declaration \<Rightarrow> 'h \<Rightarrow> 'im \<Rightarrow> decorator \<Rightarrow>
     bool \<Rightarrow> error + (property_declaration \<times> 'im)" where
  "signalInputsTransform env member host importManager decorator isCore =
     (case hasInputDecorator env host member isCore of
        Inl e \<Rightarrow> Inl e
      | Inr decorated \<Rightarrow>
          if decorated then Inr (member, importManager)
          else
            (case tryParseSignalInputMapping env
                    (ClassMember (property_name_text (name member)) (initializer member))
                    host isCore of
               Inl e \<Rightarrow> Inl e
             | Inr None \<Rightarrow> Inr (member, importManager)
             | Inr (Some inputMapping) \<Rightarrow>
                 (case generateNamespaceImport env importManager ''@angular/core'' of
                    Inl e \<Rightarrow> Inl e
                  | Inr (namespaceImport, importManager') \<Rightarrow>
                      Inr (updatePropertyDeclaration member
                             (newDecorator namespaceImport decorator inputMapping
                                # (case modifiers member of None \<Rightarrow> [] | Some ms \<Rightarrow> ms))
                             (name member)
                             (map_option Inl (questionToken member))
                             (type member)
                             (initializer member),
                           importManager'))))"


section \<open>Collaborators as the specification describes them\<close>

text \<open>
  The state of an import manager: the registered modules with their identifiers, in the
  order of registration.
\<close>

type_synonym import_manager = "(string \<times> identifier_node) list"

text \<open>
  Modelled from the spec: the import manager's request for a namespace import, which is not
  part of the source file. It registers the import for a module on the first request and
  reuses it on every later one; the identifier of the \<open>n\<close>-th import is \<open>fresh n\<close>.
\<close>

definition namespaceImportFor ::
    "(nat \<Rightarrow> identifier_node) \<Rightarrow> import_manager \<Rightarrow> string \<Rightarrow> error + (expression \<times> import_manager)" where
  "namespaceImportFor fresh importManager moduleName =
     (case map_of importManager moduleName of
        Some i \<Rightarrow> Inr (IdentifierExpression i, importManager)
      | None \<Rightarrow>
          Inr (IdentifierExpression (fresh (length importManager)),
               importManager @ [(moduleName, fresh (length importManager))]))"

text \<open>
  Modelled from the spec: the host's view of one modifier. A decorator node that is a call
  of an identifier or of a namespaced identifier is reported with that identifier and the
  call's arguments; no other modifier is reported.
\<close>

fun reflectDecorator :: "modifier_like \<Rightarrow> decorator option" where
  "reflectDecorator (Decorator (CallExpression (IdentifierExpression i) _ as)) =
     Some \<lparr>decoratorIdentifier = PlainIdentifier i, args = Some as\<rparr>"
| "reflectDecorator (Decorator (CallExpression (PropertyAccessExpression (IdentifierExpression q) n) _ as)) =
     Some \<lparr>decoratorIdentifier = NamespacedIdentifier q n, args = Some as\<rparr>"
| "reflectDecorator _ = None"

text \<open>
  Modelled from the spec: a decoration host that reports the decorators among a
  declaration's modifiers, in their order, and no list for a declaration without modifiers.
\<close>

definition decoratorsOf :: "unit \<Rightarrow> property_declaration \<Rightarrow> error + decorator list option" where
  "decoratorsOf host member = Inr (map_option (List.map_filter reflectDecorator) (modifiers member))"

text \<open>
  Modelled from the spec: the decorator-identity test. Inside the core library a bare
  local name qualifies; outside it only a namespace-qualified reference does.
\<close>

definition isTargetDecorator :: "decorator \<Rightarrow> string \<Rightarrow> bool \<Rightarrow> error + bool" where
  "isTargetDecorator d decoratorName isCore =
     Inr (case decoratorIdentifier d of
            PlainIdentifier i \<Rightarrow> isCore \<and> identifier_text i = decoratorName
          | NamespacedIdentifier q n \<Rightarrow> identifier_text n = decoratorName)"

text \<open>
  Modelled from the spec: the alias of a recognised call. A leading string literal is the
  alias, otherwise the member's name is.
\<close>

definition aliasOf :: "expression list \<Rightarrow> string \<Rightarrow> string" where
  "aliasOf as memberName = (case as of StringLiteral a # _ \<Rightarrow> a | _ \<Rightarrow> memberName)"

text \<open>
  Modelled from the spec: the two recognised call shapes, \<^verbatim>\<open>input(...)\<close> for an
  optional input and \<^verbatim>\<open>input.required(...)\<close> for a required one, with the requiredness
  and the arguments of the call.
\<close>

fun inputFactoryCall :: "expression \<Rightarrow> (bool \<times> expression list) option" where
  "inputFactoryCall (CallExpression (IdentifierExpression f) _ as) =
     (if identifier_text f = ''input'' then Some (False, as) else None)"
| "inputFactoryCall (CallExpression (PropertyAccessExpression (IdentifierExpression f) r) _ as) =
     (if identifier_text f = ''input'' \<and> identifier_text r = ''required'' then Some (True, as) else None)"
| "inputFactoryCall _ = None"

text \<open>
  Modelled from the spec: the input-factory parser. A member with a name and a recognised
  call as its initializer yields a mapping; anything else, and a missing initializer, is
  no match. It never throws.
\<close>

definition parseInputMapping :: "class_member \<Rightarrow> unit \<Rightarrow> bool \<Rightarrow> error + input_mapping option" where
  "parseInputMapping member host isCore =
     Inr (case (member_name member, member_initializer member) of
            (Some n, Some e) \<Rightarrow>
              map_option
                (\<lambda>(req, as). \<lparr>bindingPropertyName = aliasOf as n, required = req, transform = None\<rparr>)
                (inputFactoryCall e)
          | _ \<Rightarrow> None)"

text \<open>
  Modelled from the spec: the four collaborators together, as the environment of the
  transform.
\<close>

definition specEnvironment :: "(nat \<Rightarrow> identifier_node) \<Rightarrow> (unit, import_manager) environment" where
  "specEnvironment fresh =
     \<lparr>getDecoratorsOfDeclaration = decoratorsOf,
      isAngularDecorator = isTargetDecorator,
      tryParseSignalInputMapping = parseInputMapping,
      generateNamespaceImport = namespaceImportFor fresh\<rparr>"

text \<open>
  Modelled from the spec: a decorator-identity test that resolves the qualifier of a
  namespaced reference. Outside the core library a reference qualifies only when its
  qualifier is one of the names under which the file itself imports the library; inside
  it the decorator's name decides.
\<close>

definition isImportedDecorator :: "string list \<Rightarrow> decorator \<Rightarrow> string \<Rightarrow> bool \<Rightarrow> error + bool" where
  "isImportedDecorator coreNamespaces d decoratorName isCore =
     Inr (case decoratorIdentifier d of
            PlainIdentifier i \<Rightarrow> isCore \<and> identifier_text i = decoratorName
          | NamespacedIdentifier q n \<Rightarrow>
              (isCore \<or> identifier_text q \<in> set coreNamespaces) \<and> identifier_text n = decoratorName)"




text \<open>The scenarios of the specification: fresh names, environments, members and triggering decorators.\<close>

definition freshImport :: "nat \<Rightarrow> identifier_node" where
  "freshImport n = Identifier (''i'' @ replicate n (CHR ''_'')) None"

definition scenarioEnvironment :: "(unit, import_manager) environment" where
  "scenarioEnvironment = specEnvironment freshImport"

text \<open>The environment with the identity test that resolves qualifiers; the file imports the library as \<^verbatim>\<open>core\<close>.\<close>

definition resolvingEnvironment :: "(unit, import_manager) environment" where
  "resolvingEnvironment = scenarioEnvironment\<lparr>isAngularDecorator := isImportedDecorator [''core'']\<rparr>"


definition nameMember :: property_declaration where
  "nameMember =
     \<lparr>modifiers = Some [Modifier ReadonlyKeyword],
      name = IdentifierName (Identifier ''name'' None),
      questionToken = None,
      exclamationToken = None,
      type = None,
      initializer =
        Some (CallExpression (IdentifierExpression (Identifier ''input'' None)) None
                [StringLiteral ''Name''])\<rparr>"

definition idMember :: property_declaration where
  "idMember =
     \<lparr>modifiers = None,
      name = IdentifierName (Identifier ''id'' None),
      questionToken = None,
      exclamationToken = None,
      type = None,
      initializer =
        Some (CallExpression
                (PropertyAccessExpression (IdentifierExpression (Identifier ''input'' None))
                   (Identifier ''required'' None))
                None [])\<rparr>"

definition fooMember :: property_declaration where
  "fooMember =
     \<lparr>modifiers = None,
      name = IdentifierName (Identifier ''foo'' None),
      questionToken = None,
      exclamationToken = None,
      type = None,
      initializer =
        Some (CallExpression (IdentifierExpression (Identifier ''computeFoo'' None)) None [])\<rparr>"

definition computedMember :: property_declaration where
  "computedMember =
     \<lparr>modifiers = None,
      name = ComputedPropertyName (IdentifierExpression (Identifier ''key'' None)),
      questionToken = Some QuestionToken,
      exclamationToken = None,
      type = Some (KeywordTypeNode StringKeyword),
      initializer = None\<rparr>"

text \<open>\<^verbatim>\<open>name!: string = input()\<close>\<close>

definition assertedMember :: property_declaration where
  "assertedMember =
     \<lparr>modifiers = None,
      name = IdentifierName (Identifier ''name'' None),
      questionToken = None,
      exclamationToken = Some ExclamationToken,
      type = Some (KeywordTypeNode StringKeyword),
      initializer =
        Some (CallExpression (IdentifierExpression (Identifier ''input'' None)) None [])\<rparr>"

text \<open>\<^verbatim>\<open>size = input(0, {alias: a})\<close>\<close>

definition optionsMember :: property_declaration where
  "optionsMember =
     \<lparr>modifiers = None,
      name = IdentifierName (Identifier ''size'' None),
      questionToken = None,
      exclamationToken = None,
      type = None,
      initializer =
        Some (CallExpression (IdentifierExpression (Identifier ''input'' None)) None
                [NumericLiteral ''0'',
                 ObjectLiteralExpression
                   [PropertyAssignment ''alias'' (IdentifierExpression (Identifier ''a'' None))]])\<rparr>"

definition componentDecorator :: decorator where
  "componentDecorator =
     \<lparr>decoratorIdentifier = PlainIdentifier (Identifier ''Component'' None), args = Some []\<rparr>"

definition namespacedComponentDecorator :: decorator where
  "namespacedComponentDecorator =
     \<lparr>decoratorIdentifier =
        NamespacedIdentifier (Identifier ''core'' None) (Identifier ''Component'' None),
      args = Some []\<rparr>"


section \<open>Auxiliary facts\<close>

lemma some_no_throw:
  assumes "\<forall>x\<in>set xs. \<exists>b. p x = Inr b"
  shows "some p xs = Inr (\<exists>x\<in>set xs. p x = Inr True)"
  using assms
proof (induction xs)
  case Nil
  show ?case by simp
next
  case (Cons x xs)
  from Cons.prems obtain b where b: "p x = Inr b" by auto
  from Cons.prems have "\<forall>y\<in>set xs. \<exists>c. p y = Inr c" by simp
  then have ih: "some p xs = Inr (\<exists>y\<in>set xs. p y = Inr True)" by (rule Cons.IH)
  show ?case using b ih by (cases b) auto
qed

lemma hasInputDecorator_absent:
  "getDecoratorsOfDeclaration env host member = Inr None \<Longrightarrow>
   hasInputDecorator env host member isCore = Inr False"
  by (simp add: hasInputDecorator_def)

lemma hasInputDecorator_no_throw:
  assumes "getDecoratorsOfDeclaration env host member = Inr (Some ds)"
    and "\<forall>d\<in>set ds. \<exists>b. isAngularDecorator env d ''Input'' isCore = Inr b"
  shows "hasInputDecorator env host member isCore =
         Inr (\<exists>d\<in>set ds. isAngularDecorator env d ''Input'' isCore = Inr True)"
  using assms(1) some_no_throw [OF assms(2)] by (simp add: hasInputDecorator_def)

lemma transform_decorated:
  "hasInputDecorator env host member isCore = Inr True \<Longrightarrow>
   signalInputsTransform env member host importManager decorator isCore = Inr (member, importManager)"
  by (simp add: signalInputsTransform_def)

lemma transform_no_match:
  assumes "hasInputDecorator env host member isCore = Inr False"
    and "tryParseSignalInputMapping env
           (ClassMember (property_name_text (name member)) (initializer member)) host isCore
         = Inr None"
  shows "signalInputsTransform env member host importManager decorator isCore
         = Inr (member, importManager)"
  using assms by (simp add: signalInputsTransform_def)

lemma updatePropertyDeclaration_member:
  "updatePropertyDeclaration member ms (name member) (map_option Inl (questionToken member))
     (type member) (initializer member)
   = member\<lparr>modifiers := Some ms, exclamationToken := None\<rparr>"
  by (cases "questionToken member")
    (simp_all add: updatePropertyDeclaration_def createPropertyDeclaration_def)

lemma transform_rewrite:
  assumes "hasInputDecorator env host member isCore = Inr False"
    and "tryParseSignalInputMapping env
           (ClassMember (property_name_text (name member)) (initializer member)) host isCore
         = Inr (Some inputMapping)"
    and "generateNamespaceImport env importManager ''@angular/core''
         = Inr (namespaceImport, importManager')"
  shows "signalInputsTransform env member host importManager decorator isCore
         = Inr (member\<lparr>modifiers :=
                    Some (newDecorator namespaceImport decorator inputMapping
                            # (case modifiers member of None \<Rightarrow> [] | Some ms \<Rightarrow> ms)),
                  exclamationToken := None\<rparr>,
                importManager')"
  using assms by (simp add: signalInputsTransform_def updatePropertyDeclaration_member)

lemma newDecorator_shape:
  "newDecorator namespaceImport decorator inputMapping =
   Decorator
     (CallExpression
        (PropertyAccessExpression namespaceImport
           (Identifier ''Input'' (Some (classDecoratorIdentifier decorator))))
        None
        [AsExpression
           (ObjectLiteralExpression
              [PropertyAssignment ''isSignal'' TrueLiteral,
               PropertyAssignment ''alias'' (StringLiteral (bindingPropertyName inputMapping)),
               PropertyAssignment ''required''
                 (if required inputMapping then TrueLiteral else FalseLiteral),
               PropertyAssignment ''transform'' (IdentifierExpression (Identifier ''undefined'' None))])
           (KeywordTypeNode AnyKeyword)])"
  by (simp add: newDecorator_def fields_def createDecorator_def createCallExpression_def
      createPropertyAccessExpression_def createIdentifier_def createAsExpression_def
      createObjectLiteralExpression_def createPropertyAssignment_def createKeywordTypeNode_def
      createTrue_def createFalse_def createStringLiteral_def)

lemma transform_outcomes:
  assumes "signalInputsTransform env member host importManager decorator isCore
           = Inr (out, importManager')"
  shows "(out = member \<and> importManager' = importManager)
         \<or> (hasInputDecorator env host member isCore = Inr False
            \<and> (\<exists>d. modifiers out = Some (d # (case modifiers member of None \<Rightarrow> [] | Some ms \<Rightarrow> ms))))"
  using assms
  by (auto simp: signalInputsTransform_def updatePropertyDeclaration_def
      createPropertyDeclaration_def split: sum.splits if_splits option.splits)


lemma transform_unchanged_cases:
  assumes "signalInputsTransform env member host importManager decorator isCore
           = Inr (member, importManager')"
  shows "hasInputDecorator env host member isCore = Inr True
         \<or> (hasInputDecorator env host member isCore = Inr False
            \<and> tryParseSignalInputMapping env
                 (ClassMember (property_name_text (name member)) (initializer member)) host isCore
               = Inr None)"
proof -
  have "updatePropertyDeclaration member (d # (case modifiers member of None \<Rightarrow> [] | Some ms \<Rightarrow> ms))
          n q t i \<noteq> member" for d n q t i
  proof
    assume "updatePropertyDeclaration member
              (d # (case modifiers member of None \<Rightarrow> [] | Some ms \<Rightarrow> ms)) n q t i = member"
    then have "modifiers member = Some (d # (case modifiers member of None \<Rightarrow> [] | Some ms \<Rightarrow> ms))"
      by (metis createPropertyDeclaration_def property_declaration.select_convs(1)
          updatePropertyDeclaration_def)
    then show False by (cases "modifiers member") auto
  qed
  with assms show ?thesis
    by (auto simp: signalInputsTransform_def split: sum.splits if_splits option.splits)
qed

lemma transform_rewritten_cases:
  assumes "signalInputsTransform env member host importManager decorator isCore
           = Inr (out, importManager')"
    and "out \<noteq> member"
  shows "\<exists>inputMapping namespaceImport.
           hasInputDecorator env host member isCore = Inr False
         \<and> tryParseSignalInputMapping env
              (ClassMember (property_name_text (name member)) (initializer member)) host isCore
            = Inr (Some inputMapping)
         \<and> generateNamespaceImport env importManager ''@angular/core''
            = Inr (namespaceImport, importManager')
         \<and> name out = name member
         \<and> initializer out = initializer member"
  using assms
  by (auto simp: signalInputsTransform_def updatePropertyDeclaration_def
      createPropertyDeclaration_def split: sum.splits if_splits option.splits)

lemma namespaceImportFor_returns:
  "\<exists>i importManager'.
     namespaceImportFor fresh importManager moduleName = Inr (IdentifierExpression i, importManager')
     \<and> map_of importManager' moduleName = Some i
     \<and> set (map fst importManager') = insert moduleName (set (map fst importManager))
     \<and> length importManager' \<le> Suc (length importManager)
     \<and> (moduleName \<in> set (map fst importManager) \<longrightarrow> importManager' = importManager)"
proof (cases "map_of importManager moduleName")
  case None
  then have "moduleName \<notin> set (map fst importManager)"
    by (simp add: map_of_eq_None_iff)
  with None show ?thesis
    by (simp add: namespaceImportFor_def map_add_def)
next
  case (Some i)
  then have "moduleName \<in> set (map fst importManager)"
    by (metis map_of_eq_None_iff option.distinct(1) set_map)
  with Some show ?thesis
    by (auto simp add: namespaceImportFor_def)
qed

lemmas scenario_defs =
  scenarioEnvironment_def specEnvironment_def decoratorsOf_def isTargetDecorator_def parseInputMapping_def
  namespaceImportFor_def aliasOf_def freshImport_def hasInputDecorator_def
  nameMember_def idMember_def fooMember_def computedMember_def assertedMember_def optionsMember_def
  componentDecorator_def namespacedComponentDecorator_def List.map_filter_def

section \<open>The claims\<close>

text \<open>
  C1. When a member is rewritten, that is, it is not yet decorated and the parser returns
  an input mapping, the object literal inside the synthesized decorator has exactly the
  four properties \<^verbatim>\<open>isSignal\<close>, \<^verbatim>\<open>alias\<close>, \<^verbatim>\<open>required\<close>, \<^verbatim>\<open>transform\<close>, in this
  order: \<^verbatim>\<open>true\<close>, the string literal of the binding property name, the boolean literal of
  the required flag, and the identifier \<^verbatim>\<open>undefined\<close>, whatever transform \<open>t\<close> the parser
  put into the mapping.
\<close>

theorem metadata_object_literal:
  assumes "hasInputDecorator env host member isCore = Inr False"
    and "tryParseSignalInputMapping env
           (ClassMember (property_name_text (name member)) (initializer member)) host isCore
         = Inr (Some (inputMapping\<lparr>transform := t\<rparr>))"
    and "generateNamespaceImport env importManager ''@angular/core''
         = Inr (namespaceImport, importManager')"
  shows "\<exists>out callee rest.
           signalInputsTransform env member host importManager decorator isCore
             = Inr (out, importManager')
         \<and> modifiers out =
             Some (Decorator
                     (CallExpression callee None
                        [AsExpression
                           (ObjectLiteralExpression
                              [PropertyAssignment ''isSignal'' TrueLiteral,
                               PropertyAssignment ''alias''
                                 (StringLiteral (bindingPropertyName inputMapping)),
                               PropertyAssignment ''required''
                                 (if required inputMapping then TrueLiteral else FalseLiteral),
                               PropertyAssignment ''transform''
                                 (IdentifierExpression (Identifier ''undefined'' None))])
                           (KeywordTypeNode AnyKeyword)])
                   # rest)"
  using transform_rewrite [OF assms, of decorator] by (simp add: newDecorator_shape)

theorem metadata_object_literal_witness:
  "\<exists>out callee rest.
     signalInputsTransform
       (scenarioEnvironment
          \<lparr>tryParseSignalInputMapping := \<lambda>m h c.
             Inr (Some \<lparr>bindingPropertyName = ''x'', required = True,
                        transform = Some (IdentifierExpression (Identifier ''trim'' None))\<rparr>)\<rparr>)
       nameMember () [] componentDecorator False
       = Inr (out, [(''@angular/core'', freshImport 0)])
   \<and> modifiers out =
       Some (Decorator
               (CallExpression callee None
                  [AsExpression
                     (ObjectLiteralExpression
                        [PropertyAssignment ''isSignal'' TrueLiteral,
                         PropertyAssignment ''alias'' (StringLiteral ''x''),
                         PropertyAssignment ''required'' TrueLiteral,
                         PropertyAssignment ''transform''
                           (IdentifierExpression (Identifier ''undefined'' None))])
                     (KeywordTypeNode AnyKeyword)])
             # rest)"
proof -
  let ?env = "scenarioEnvironment
          \<lparr>tryParseSignalInputMapping := \<lambda>m h c.
             Inr (Some \<lparr>bindingPropertyName = ''x'', required = True,
                        transform = Some (IdentifierExpression (Identifier ''trim'' None))\<rparr>)\<rparr>"
  let ?m = "\<lparr>bindingPropertyName = ''x'', required = True, transform = None\<rparr>"
  have h1: "hasInputDecorator ?env () nameMember False = Inr False"
    by (simp add: scenario_defs)
  have h2: "tryParseSignalInputMapping ?env
              (ClassMember (property_name_text (name nameMember)) (initializer nameMember)) () False
            = Inr (Some (?m\<lparr>transform := Some (IdentifierExpression (Identifier ''trim'' None))\<rparr>))"
    by simp
  have h3: "generateNamespaceImport ?env [] ''@angular/core''
            = Inr (IdentifierExpression (freshImport 0), [(''@angular/core'', freshImport 0)])"
    by (simp add: scenarioEnvironment_def specEnvironment_def namespaceImportFor_def)
  show ?thesis
    using metadata_object_literal [OF h1 h2 h3, of componentDecorator] by simp
qed


text \<open>
  C2. When the parser reports no match for the member's name and initializer (an absent
  initializer is handed to it as the absent marker), the transform returns the member it
  was given, and leaves the import manager as it was.
\<close>

theorem no_match_unchanged:
  assumes "hasInputDecorator env host member isCore = Inr decorated"
    and "tryParseSignalInputMapping env
           (ClassMember (property_name_text (name member)) (initializer member)) host isCore
         = Inr None"
  shows "signalInputsTransform env member host importManager decorator isCore
         = Inr (member, importManager)"
proof (cases decorated)
  case True
  with assms(1) show ?thesis by (simp add: transform_decorated)
next
  case False
  with assms show ?thesis by (simp add: transform_no_match)
qed

theorem no_match_unchanged_witness:
  "hasInputDecorator scenarioEnvironment () fooMember False = Inr False
   \<and> tryParseSignalInputMapping scenarioEnvironment
        (ClassMember (property_name_text (name fooMember)) (initializer fooMember)) () False
      = Inr None
   \<and> signalInputsTransform scenarioEnvironment fooMember () [] componentDecorator False
      = Inr (fooMember, [])"
proof -
  have h1: "hasInputDecorator scenarioEnvironment () fooMember False = Inr False"
    by (simp add: scenario_defs)
  have h2: "tryParseSignalInputMapping scenarioEnvironment
              (ClassMember (property_name_text (name fooMember)) (initializer fooMember)) () False
            = Inr None"
    by (simp add: scenario_defs)
  show ?thesis
    using h1 h2 no_match_unchanged [OF h1 h2, of "[]" componentDecorator] by simp
qed

text \<open>
  C3. When the host reports decorators for the member, one of them is recognised as the
  \<^verbatim>\<open>Input\<close> decorator under the \<^verbatim>\<open>isCore\<close> flag, and the recognition throws on none of
  them, the transform returns the member it was given. Nothing is assumed about the
  initializer, and the parser is not consulted.
\<close>

theorem already_decorated_unchanged:
  assumes "getDecoratorsOfDeclaration env host member = Inr (Some ds)"
    and "\<forall>d\<in>set ds. \<exists>b. isAngularDecorator env d ''Input'' isCore = Inr b"
    and "d \<in> set ds"
    and "isAngularDecorator env d ''Input'' isCore = Inr True"
  shows "signalInputsTransform env member host importManager decorator isCore
         = Inr (member, importManager)"
proof -
  have "hasInputDecorator env host member isCore = Inr True"
    using hasInputDecorator_no_throw [OF assms(1,2)] assms(3,4) by auto
  then show ?thesis by (rule transform_decorated)
qed

theorem already_decorated_unchanged_witness:
  "signalInputsTransform scenarioEnvironment
     (nameMember\<lparr>modifiers :=
        Some [Decorator
                (CallExpression
                   (PropertyAccessExpression (IdentifierExpression (Identifier ''core'' None))
                      (Identifier ''Input'' None))
                   None [])]\<rparr>)
     () [] componentDecorator False
   = Inr (nameMember\<lparr>modifiers :=
            Some [Decorator
                    (CallExpression
                       (PropertyAccessExpression (IdentifierExpression (Identifier ''core'' None))
                          (Identifier ''Input'' None))
                       None [])]\<rparr>,
          [])"
proof -
  let ?member = "nameMember\<lparr>modifiers :=
        Some [Decorator
                (CallExpression
                   (PropertyAccessExpression (IdentifierExpression (Identifier ''core'' None))
                      (Identifier ''Input'' None))
                   None [])]\<rparr>"
  let ?d = "\<lparr>decoratorIdentifier =
               NamespacedIdentifier (Identifier ''core'' None) (Identifier ''Input'' None),
             args = Some []\<rparr>"
  have h1: "getDecoratorsOfDeclaration scenarioEnvironment () ?member = Inr (Some [?d])"
    by (simp add: scenario_defs)
  have h2: "\<forall>d\<in>set [?d]. \<exists>b.
              isAngularDecorator scenarioEnvironment d ''Input'' False = Inr b"
    by (auto simp add: scenario_defs)
  have h3: "?d \<in> set [?d]"
    by simp
  have h4: "isAngularDecorator scenarioEnvironment ?d ''Input'' False = Inr True"
    by (simp add: scenario_defs)
  show ?thesis
    using already_decorated_unchanged [OF h1 h2 h3 h4, of "[]" componentDecorator] by simp
qed

text \<open>
  C4. A host that reports the prepended decorator does not make the transform idempotent:
  with an identity test that does not recognise the reported decorator, a second
  application prepends a second decorator.
\<close>

theorem second_application_rewrites_again:
  "signalInputsTransform resolvingEnvironment nameMember () [] componentDecorator False
   = Inr (nameMember\<lparr>modifiers :=
            Some [newDecorator (IdentifierExpression (freshImport 0)) componentDecorator
                    \<lparr>bindingPropertyName = ''Name'', required = False, transform = None\<rparr>,
                  Modifier ReadonlyKeyword]\<rparr>,
          [(''@angular/core'', freshImport 0)])
   \<and> getDecoratorsOfDeclaration resolvingEnvironment ()
        (nameMember\<lparr>modifiers :=
            Some [newDecorator (IdentifierExpression (freshImport 0)) componentDecorator
                    \<lparr>bindingPropertyName = ''Name'', required = False, transform = None\<rparr>,
                  Modifier ReadonlyKeyword]\<rparr>)
      = Inr (Some [\<lparr>decoratorIdentifier =
                      NamespacedIdentifier (freshImport 0)
                        (Identifier ''Input'' (Some (Identifier ''Component'' None))),
                    args = Some [AsExpression
                                   (ObjectLiteralExpression
                                      [PropertyAssignment ''isSignal'' TrueLiteral,
                                       PropertyAssignment ''alias'' (StringLiteral ''Name''),
                                       PropertyAssignment ''required'' FalseLiteral,
                                       PropertyAssignment ''transform''
                                         (IdentifierExpression (Identifier ''undefined'' None))])
                                   (KeywordTypeNode AnyKeyword)]\<rparr>])
   \<and> signalInputsTransform resolvingEnvironment
        (nameMember\<lparr>modifiers :=
            Some [newDecorator (IdentifierExpression (freshImport 0)) componentDecorator
                    \<lparr>bindingPropertyName = ''Name'', required = False, transform = None\<rparr>,
                  Modifier ReadonlyKeyword]\<rparr>)
        () [(''@angular/core'', freshImport 0)] componentDecorator False
      = Inr (nameMember\<lparr>modifiers :=
               Some [newDecorator (IdentifierExpression (freshImport 0)) componentDecorator
                       \<lparr>bindingPropertyName = ''Name'', required = False, transform = None\<rparr>,
                     newDecorator (IdentifierExpression (freshImport 0)) componentDecorator
                       \<lparr>bindingPropertyName = ''Name'', required = False, transform = None\<rparr>,
                     Modifier ReadonlyKeyword]\<rparr>,
             [(''@angular/core'', freshImport 0)])
   \<and> signalInputsTransform resolvingEnvironment
        (nameMember\<lparr>modifiers :=
            Some [newDecorator (IdentifierExpression (freshImport 0)) componentDecorator
                    \<lparr>bindingPropertyName = ''Name'', required = False, transform = None\<rparr>,
                  Modifier ReadonlyKeyword]\<rparr>)
        () [(''@angular/core'', freshImport 0)] componentDecorator False
      \<noteq> Inr (nameMember\<lparr>modifiers :=
               Some [newDecorator (IdentifierExpression (freshImport 0)) componentDecorator
                       \<lparr>bindingPropertyName = ''Name'', required = False, transform = None\<rparr>,
                     Modifier ReadonlyKeyword]\<rparr>,
             [(''@angular/core'', freshImport 0)])"
proof -
  let ?env = "resolvingEnvironment"
  let ?m = "\<lparr>bindingPropertyName = ''Name'', required = False, transform = None\<rparr>"
  let ?nd = "newDecorator (IdentifierExpression (freshImport 0)) componentDecorator ?m"
  let ?out = "nameMember\<lparr>modifiers := Some [?nd, Modifier ReadonlyKeyword]\<rparr>"
  let ?im = "[(''@angular/core'', freshImport 0)]"
  have p1: "hasInputDecorator ?env () nameMember False = Inr False"
    by (simp add: resolvingEnvironment_def scenario_defs)
  have p2: "tryParseSignalInputMapping ?env
              (ClassMember (property_name_text (name nameMember)) (initializer nameMember)) () False
            = Inr (Some ?m)"
    by (simp add: resolvingEnvironment_def scenario_defs)
  have p3: "generateNamespaceImport ?env [] ''@angular/core''
            = Inr (IdentifierExpression (freshImport 0), ?im)"
    by (simp add: resolvingEnvironment_def scenarioEnvironment_def specEnvironment_def
        namespaceImportFor_def)
  have first: "signalInputsTransform ?env nameMember () [] componentDecorator False
               = Inr (?out, ?im)"
    using transform_rewrite [OF p1 p2 p3, of componentDecorator] by (simp add: nameMember_def)
  have reported: "getDecoratorsOfDeclaration ?env () ?out
      = Inr (Some [\<lparr>decoratorIdentifier =
                      NamespacedIdentifier (freshImport 0)
                        (Identifier ''Input'' (Some (Identifier ''Component'' None))),
                    args = Some [AsExpression
                                   (ObjectLiteralExpression
                                      [PropertyAssignment ''isSignal'' TrueLiteral,
                                       PropertyAssignment ''alias'' (StringLiteral ''Name''),
                                       PropertyAssignment ''required'' FalseLiteral,
                                       PropertyAssignment ''transform''
                                         (IdentifierExpression (Identifier ''undefined'' None))])
                                   (KeywordTypeNode AnyKeyword)]\<rparr>])"
    by (simp add: resolvingEnvironment_def scenarioEnvironment_def specEnvironment_def
        decoratorsOf_def List.map_filter_def newDecorator_shape componentDecorator_def)
  have q1: "hasInputDecorator ?env () ?out False = Inr False"
    using reported
    by (simp add: hasInputDecorator_def resolvingEnvironment_def isImportedDecorator_def
        freshImport_def)
  have q2: "tryParseSignalInputMapping ?env
              (ClassMember (property_name_text (name ?out)) (initializer ?out)) () False
            = Inr (Some ?m)"
    by (simp add: resolvingEnvironment_def scenario_defs)
  have q3: "generateNamespaceImport ?env ?im ''@angular/core''
            = Inr (IdentifierExpression (freshImport 0), ?im)"
    by (simp add: resolvingEnvironment_def scenarioEnvironment_def specEnvironment_def
        namespaceImportFor_def)
  have second: "signalInputsTransform ?env ?out () ?im componentDecorator False
               = Inr (nameMember\<lparr>modifiers := Some [?nd, ?nd, Modifier ReadonlyKeyword]\<rparr>, ?im)"
    using transform_rewrite [OF q1 q2 q3, of componentDecorator] by (simp add: nameMember_def)
  have differ: "nameMember\<lparr>modifiers := Some [?nd, ?nd, Modifier ReadonlyKeyword]\<rparr> \<noteq> ?out"
    by (simp add: nameMember_def newDecorator_shape)
  show ?thesis
    using first reported second differ by simp
qed

text \<open>
  C4, as the code has it. Let a first application return \<open>out\<close>. A second application,
  to \<open>out\<close>, with the same collaborators, flag and triggering decorator and the import
  manager as the first left it, returns \<open>out\<close> again and leaves the import manager alone
  exactly when \<open>out\<close> is the member unchanged or the presence check on \<open>out\<close> finds a
  reported decorator that the identity test recognises as \<^verbatim>\<open>Input\<close>. Otherwise the
  parser, which sees the same name and initializer, matches again.
\<close>

theorem second_application:
  assumes "signalInputsTransform env member host importManager decorator isCore
           = Inr (out, importManager')"
  shows "signalInputsTransform env out host importManager' decorator isCore
           = Inr (out, importManager')
         \<longleftrightarrow> (out = member \<or> hasInputDecorator env host out isCore = Inr True)"
proof (cases "out = member")
  case True
  with transform_outcomes [OF assms] have "importManager' = importManager"
    by (auto split: option.splits)
  with True assms show ?thesis by simp
next
  case False
  from transform_rewritten_cases [OF assms False] obtain inputMapping where
    parsed: "tryParseSignalInputMapping env
               (ClassMember (property_name_text (name member)) (initializer member)) host isCore
             = Inr (Some inputMapping)"
    and same: "name out = name member" "initializer out = initializer member"
    by blast
  have parsed': "tryParseSignalInputMapping env
               (ClassMember (property_name_text (name out)) (initializer out)) host isCore
             = Inr (Some inputMapping)"
    using parsed same by simp
  show ?thesis
  proof
    assume "signalInputsTransform env out host importManager' decorator isCore
            = Inr (out, importManager')"
    from transform_unchanged_cases [OF this] parsed'
    show "out = member \<or> hasInputDecorator env host out isCore = Inr True"
      by simp
  next
    assume "out = member \<or> hasInputDecorator env host out isCore = Inr True"
    with False have "hasInputDecorator env host out isCore = Inr True" by simp
    then show "signalInputsTransform env out host importManager' decorator isCore
               = Inr (out, importManager')"
      by (rule transform_decorated)
  qed
qed

theorem second_application_witness:
  "signalInputsTransform scenarioEnvironment nameMember () [] componentDecorator False
   = Inr (nameMember\<lparr>modifiers :=
            Some [newDecorator (IdentifierExpression (freshImport 0)) componentDecorator
                    \<lparr>bindingPropertyName = ''Name'', required = False, transform = None\<rparr>,
                  Modifier ReadonlyKeyword]\<rparr>,
          [(''@angular/core'', freshImport 0)])
   \<and> hasInputDecorator scenarioEnvironment ()
        (nameMember\<lparr>modifiers :=
            Some [newDecorator (IdentifierExpression (freshImport 0)) componentDecorator
                    \<lparr>bindingPropertyName = ''Name'', required = False, transform = None\<rparr>,
                  Modifier ReadonlyKeyword]\<rparr>)
        False
      = Inr True
   \<and> signalInputsTransform scenarioEnvironment
        (nameMember\<lparr>modifiers :=
            Some [newDecorator (IdentifierExpression (freshImport 0)) componentDecorator
                    \<lparr>bindingPropertyName = ''Name'', required = False, transform = None\<rparr>,
                  Modifier ReadonlyKeyword]\<rparr>)
        () [(''@angular/core'', freshImport 0)] componentDecorator False
      = Inr (nameMember\<lparr>modifiers :=
               Some [newDecorator (IdentifierExpression (freshImport 0)) componentDecorator
                       \<lparr>bindingPropertyName = ''Name'', required = False, transform = None\<rparr>,
                     Modifier ReadonlyKeyword]\<rparr>,
             [(''@angular/core'', freshImport 0)])"
proof -
  let ?env = "scenarioEnvironment"
  let ?m = "\<lparr>bindingPropertyName = ''Name'', required = False, transform = None\<rparr>"
  let ?out = "nameMember\<lparr>modifiers :=
            Some [newDecorator (IdentifierExpression (freshImport 0)) componentDecorator ?m,
                  Modifier ReadonlyKeyword]\<rparr>"
  have p1: "hasInputDecorator ?env () nameMember False = Inr False"
    by (simp add: scenario_defs)
  have p2: "tryParseSignalInputMapping ?env
              (ClassMember (property_name_text (name nameMember)) (initializer nameMember)) () False
            = Inr (Some ?m)"
    by (simp add: scenario_defs)
  have p3: "generateNamespaceImport ?env [] ''@angular/core''
            = Inr (IdentifierExpression (freshImport 0), [(''@angular/core'', freshImport 0)])"
    by (simp add: scenarioEnvironment_def specEnvironment_def namespaceImportFor_def)
  have first: "signalInputsTransform ?env nameMember () [] componentDecorator False
            = Inr (?out, [(''@angular/core'', freshImport 0)])"
    using transform_rewrite [OF p1 p2 p3, of componentDecorator] by (simp add: nameMember_def)
  have recognised: "hasInputDecorator ?env () ?out False = Inr True"
    by (simp add: scenarioEnvironment_def specEnvironment_def decoratorsOf_def
        List.map_filter_def newDecorator_shape hasInputDecorator_def isTargetDecorator_def)
  show ?thesis
    using first recognised second_application [OF first] by simp
qed

text \<open>
  C5. The frame clause fails on a member with an exclamation token: the declaration is
  rebuilt from the five arguments of \<^verbatim>\<open>updatePropertyDeclaration\<close>, the member's question
  token fills the question-or-exclamation slot, and the exclamation token is gone.
\<close>

theorem exclamation_token_not_kept:
  "signalInputsTransform scenarioEnvironment assertedMember () [] componentDecorator False
   = Inr (\<lparr>modifiers =
              Some [newDecorator (IdentifierExpression (freshImport 0)) componentDecorator
                      \<lparr>bindingPropertyName = ''name'', required = False, transform = None\<rparr>],
            name = IdentifierName (Identifier ''name'' None),
            questionToken = None,
            exclamationToken = None,
            type = Some (KeywordTypeNode StringKeyword),
            initializer =
              Some (CallExpression (IdentifierExpression (Identifier ''input'' None)) None [])\<rparr>,
          [(''@angular/core'', freshImport 0)])
   \<and> exclamationToken assertedMember = Some ExclamationToken"
proof -
  let ?env = "scenarioEnvironment"
  have h1: "hasInputDecorator ?env () assertedMember False = Inr False"
    by (simp add: scenario_defs)
  have h2: "tryParseSignalInputMapping ?env
              (ClassMember (property_name_text (name assertedMember)) (initializer assertedMember))
              () False
            = Inr (Some \<lparr>bindingPropertyName = ''name'', required = False, transform = None\<rparr>)"
    by (simp add: scenario_defs)
  have h3: "generateNamespaceImport ?env [] ''@angular/core''
            = Inr (IdentifierExpression (freshImport 0), [(''@angular/core'', freshImport 0)])"
    by (simp add: scenarioEnvironment_def specEnvironment_def namespaceImportFor_def)
  show ?thesis
    using transform_rewrite [OF h1 h2 h3, of componentDecorator] by (simp add: assertedMember_def)
qed

text \<open>
  C5, as the code has it. When a member is rewritten, the returned declaration has as its
  modifiers the new decorator followed by the member's modifiers in their order (none, when
  the member has no modifier list), and the member's own name, question token, type and
  initializer. When the member carries no exclamation token, the returned declaration is
  the member with only its modifiers replaced.
\<close>

theorem rewritten_declaration_parts:
  assumes "hasInputDecorator env host member isCore = Inr False"
    and "tryParseSignalInputMapping env
           (ClassMember (property_name_text (name member)) (initializer member)) host isCore
         = Inr (Some inputMapping)"
    and "generateNamespaceImport env importManager ''@angular/core''
         = Inr (namespaceImport, importManager')"
  shows "\<exists>out.
           signalInputsTransform env member host importManager decorator isCore
             = Inr (out, importManager')
         \<and> modifiers out =
             Some (newDecorator namespaceImport decorator inputMapping
                   # (case modifiers member of None \<Rightarrow> [] | Some ms \<Rightarrow> ms))
         \<and> name out = name member
         \<and> questionToken out = questionToken member
         \<and> type out = type member
         \<and> initializer out = initializer member
         \<and> (exclamationToken member = None \<longrightarrow>
              out = member\<lparr>modifiers :=
                      Some (newDecorator namespaceImport decorator inputMapping
                            # (case modifiers member of None \<Rightarrow> [] | Some ms \<Rightarrow> ms))\<rparr>)"
proof -
  let ?ms = "newDecorator namespaceImport decorator inputMapping
             # (case modifiers member of None \<Rightarrow> [] | Some ms \<Rightarrow> ms)"
  have out: "signalInputsTransform env member host importManager decorator isCore
        = Inr (member\<lparr>modifiers := Some ?ms, exclamationToken := None\<rparr>, importManager')"
    by (rule transform_rewrite [OF assms])
  have "exclamationToken member = None \<longrightarrow>
        member\<lparr>modifiers := Some ?ms, exclamationToken := None\<rparr> = member\<lparr>modifiers := Some ?ms\<rparr>"
    by (cases member) simp
  with out show ?thesis by simp
qed

theorem rewritten_declaration_parts_witness:
  "exclamationToken nameMember = None
   \<and> signalInputsTransform scenarioEnvironment nameMember () [] componentDecorator False
       = Inr (nameMember\<lparr>modifiers :=
                Some [newDecorator (IdentifierExpression (freshImport 0)) componentDecorator
                        \<lparr>bindingPropertyName = ''Name'', required = False, transform = None\<rparr>,
                      Modifier ReadonlyKeyword]\<rparr>,
              [(''@angular/core'', freshImport 0)])
   \<and> name nameMember = IdentifierName (Identifier ''name'' None)
   \<and> questionToken nameMember = None
   \<and> type nameMember = None
   \<and> initializer nameMember =
       Some (CallExpression (IdentifierExpression (Identifier ''input'' None)) None
               [StringLiteral ''Name''])"
proof -
  let ?env = "scenarioEnvironment"
  have h1: "hasInputDecorator ?env () nameMember False = Inr False"
    by (simp add: scenario_defs)
  have h2: "tryParseSignalInputMapping ?env
              (ClassMember (property_name_text (name nameMember)) (initializer nameMember)) () False
            = Inr (Some \<lparr>bindingPropertyName = ''Name'', required = False, transform = None\<rparr>)"
    by (simp add: scenario_defs)
  have h3: "generateNamespaceImport ?env [] ''@angular/core''
            = Inr (IdentifierExpression (freshImport 0), [(''@angular/core'', freshImport 0)])"
    by (simp add: scenarioEnvironment_def specEnvironment_def namespaceImportFor_def)
  have h4: "exclamationToken nameMember = None"
    by (simp add: nameMember_def)
  have m: "modifiers nameMember = Some [Modifier ReadonlyKeyword]"
    by (simp add: nameMember_def)
  from rewritten_declaration_parts [OF h1 h2 h3, of componentDecorator] h4 m
  have "signalInputsTransform ?env nameMember () [] componentDecorator False
       = Inr (nameMember\<lparr>modifiers :=
                Some [newDecorator (IdentifierExpression (freshImport 0)) componentDecorator
                        \<lparr>bindingPropertyName = ''Name'', required = False, transform = None\<rparr>,
                      Modifier ReadonlyKeyword]\<rparr>,
              [(''@angular/core'', freshImport 0)])"
    by auto
  then show ?thesis by (simp add: nameMember_def)
qed

text \<open>
  C6. When a member is rewritten and the import manager is the one the specification
  describes, the new decorator wraps the call \<^verbatim>\<open>ns.Input({...} as any)\<close>: the callee is
  a property access whose qualifier \<open>ns\<close> is the identifier the import manager returns for
  the module \<^verbatim>\<open>@angular/core\<close> and whose name is an identifier with the text
  \<^verbatim>\<open>Input\<close>; there are no type arguments; the single argument is the object literal of
  the four metadata properties under a cast to the keyword type \<^verbatim>\<open>any\<close>. The module asked for is
  always \<^verbatim>\<open>@angular/core\<close>, so a rewrite registers no module but this one, at most one
  entry is added, and nothing is added once the module is registered.
\<close>

theorem decorator_call_shape:
  assumes "generateNamespaceImport env = namespaceImportFor fresh"
    and "hasInputDecorator env host member isCore = Inr False"
    and "tryParseSignalInputMapping env
           (ClassMember (property_name_text (name member)) (initializer member)) host isCore
         = Inr (Some inputMapping)"
  shows "\<exists>out i importManager' orig rest.
           namespaceImportFor fresh importManager ''@angular/core''
             = Inr (IdentifierExpression i, importManager')
         \<and> signalInputsTransform env member host importManager decorator isCore
             = Inr (out, importManager')
         \<and> modifiers out =
             Some (Decorator
                     (CallExpression
                        (PropertyAccessExpression (IdentifierExpression i) (Identifier ''Input'' orig))
                        None
                        [AsExpression
                           (ObjectLiteralExpression
                              [PropertyAssignment ''isSignal'' TrueLiteral,
                               PropertyAssignment ''alias''
                                 (StringLiteral (bindingPropertyName inputMapping)),
                               PropertyAssignment ''required''
                                 (if required inputMapping then TrueLiteral else FalseLiteral),
                               PropertyAssignment ''transform''
                                 (IdentifierExpression (Identifier ''undefined'' None))])
                           (KeywordTypeNode AnyKeyword)])
                   # rest)
         \<and> map_of importManager' ''@angular/core'' = Some i
         \<and> set (map fst importManager') = insert ''@angular/core'' (set (map fst importManager))
         \<and> length importManager' \<le> Suc (length importManager)
         \<and> (''@angular/core'' \<in> set (map fst importManager) \<longrightarrow> importManager' = importManager)"
proof -
  obtain i importManager' where
    gen: "namespaceImportFor fresh importManager ''@angular/core''
          = Inr (IdentifierExpression i, importManager')"
    and reg: "map_of importManager' ''@angular/core'' = Some i"
      "set (map fst importManager') = insert ''@angular/core'' (set (map fst importManager))"
      "length importManager' \<le> Suc (length importManager)"
      "''@angular/core'' \<in> set (map fst importManager) \<longrightarrow> importManager' = importManager"
    using namespaceImportFor_returns [of fresh importManager "''@angular/core''"] by blast
  have gen': "generateNamespaceImport env importManager ''@angular/core''
              = Inr (IdentifierExpression i, importManager')"
    using assms(1) gen by simp
  have "signalInputsTransform env member host importManager decorator isCore
        = Inr (member\<lparr>modifiers :=
                   Some (newDecorator (IdentifierExpression i) decorator inputMapping
                           # (case modifiers member of None \<Rightarrow> [] | Some ms \<Rightarrow> ms)),
                 exclamationToken := None\<rparr>,
               importManager')"
    by (rule transform_rewrite [OF assms(2,3) gen'])
  with gen reg show ?thesis
    by (simp add: newDecorator_shape)
qed

theorem decorator_call_shape_witness:
  "\<exists>out orig rest.
     signalInputsTransform scenarioEnvironment idMember ()
         [(''@angular/core'', Identifier ''i0'' None)] componentDecorator False
       = Inr (out, [(''@angular/core'', Identifier ''i0'' None)])
     \<and> modifiers out =
         Some (Decorator
                 (CallExpression
                    (PropertyAccessExpression (IdentifierExpression (Identifier ''i0'' None))
                       (Identifier ''Input'' orig))
                    None
                    [AsExpression
                       (ObjectLiteralExpression
                          [PropertyAssignment ''isSignal'' TrueLiteral,
                           PropertyAssignment ''alias'' (StringLiteral ''id''),
                           PropertyAssignment ''required'' TrueLiteral,
                           PropertyAssignment ''transform''
                             (IdentifierExpression (Identifier ''undefined'' None))])
                       (KeywordTypeNode AnyKeyword)])
               # rest)"
proof -
  let ?env = "scenarioEnvironment"
  have h1: "generateNamespaceImport ?env = namespaceImportFor freshImport"
    by (simp add: scenarioEnvironment_def specEnvironment_def)
  have h2: "hasInputDecorator ?env () idMember False = Inr False"
    by (simp add: scenario_defs)
  have h3: "tryParseSignalInputMapping ?env
              (ClassMember (property_name_text (name idMember)) (initializer idMember)) () False
            = Inr (Some \<lparr>bindingPropertyName = ''id'', required = True, transform = None\<rparr>)"
    by (simp add: scenario_defs)
  show ?thesis
    using decorator_call_shape [OF h1 h2 h3, of "[(''@angular/core'', Identifier ''i0'' None)]"
        componentDecorator]
    by (auto simp add: namespaceImportFor_def)
qed

text \<open>
  C7. When a member is rewritten, the identifier \<^verbatim>\<open>Input\<close> of the synthesized call has
  its original-node link set, and the node it points to is an identifier of the triggering
  decorator: that decorator's identifier itself, or the qualifier of its namespaced
  identifier.
\<close>

theorem decorator_name_provenance:
  assumes "hasInputDecorator env host member isCore = Inr False"
    and "tryParseSignalInputMapping env
           (ClassMember (property_name_text (name member)) (initializer member)) host isCore
         = Inr (Some inputMapping)"
    and "generateNamespaceImport env importManager ''@angular/core''
         = Inr (namespaceImport, importManager')"
  shows "\<exists>out orig as rest.
           signalInputsTransform env member host importManager decorator isCore
             = Inr (out, importManager')
         \<and> modifiers out =
             Some (Decorator
                     (CallExpression
                        (PropertyAccessExpression namespaceImport (Identifier ''Input'' (Some orig)))
                        None as)
                   # rest)
         \<and> (decoratorIdentifier decorator = PlainIdentifier orig
              \<or> (\<exists>n. decoratorIdentifier decorator = NamespacedIdentifier orig n))"
  using transform_rewrite [OF assms, of decorator]
  by (cases "decoratorIdentifier decorator") (simp_all add: newDecorator_shape)

theorem decorator_name_provenance_witness:
  "\<exists>out as rest.
     signalInputsTransform scenarioEnvironment nameMember () [] componentDecorator False
       = Inr (out, [(''@angular/core'', freshImport 0)])
     \<and> modifiers out =
         Some (Decorator
                 (CallExpression
                    (PropertyAccessExpression (IdentifierExpression (freshImport 0))
                       (Identifier ''Input'' (Some (Identifier ''Component'' None))))
                    None as)
               # rest)"
proof -
  let ?env = "scenarioEnvironment"
  have h1: "hasInputDecorator ?env () nameMember False = Inr False"
    by (simp add: scenario_defs)
  have h2: "tryParseSignalInputMapping ?env
              (ClassMember (property_name_text (name nameMember)) (initializer nameMember)) () False
            = Inr (Some \<lparr>bindingPropertyName = ''Name'', required = False, transform = None\<rparr>)"
    by (simp add: scenario_defs)
  have h3: "generateNamespaceImport ?env [] ''@angular/core''
            = Inr (IdentifierExpression (freshImport 0), [(''@angular/core'', freshImport 0)])"
    by (simp add: scenarioEnvironment_def specEnvironment_def namespaceImportFor_def)
  show ?thesis
    using decorator_name_provenance [OF h1 h2 h3, of componentDecorator]
    by (auto simp add: componentDecorator_def)
qed





text \<open>
  C9. When a member is rewritten, the original-node link of the identifier \<^verbatim>\<open>Input\<close>
  points to the triggering decorator's identifier when that is a plain identifier, and to
  the expression part of it when it is a namespaced identifier.
\<close>

theorem provenance_source_by_identifier_kind:
  assumes "hasInputDecorator env host member isCore = Inr False"
    and "tryParseSignalInputMapping env
           (ClassMember (property_name_text (name member)) (initializer member)) host isCore
         = Inr (Some inputMapping)"
    and "generateNamespaceImport env importManager ''@angular/core''
         = Inr (namespaceImport, importManager')"
  shows "\<exists>out orig as rest.
           signalInputsTransform env member host importManager decorator isCore
             = Inr (out, importManager')
         \<and> modifiers out =
             Some (Decorator
                     (CallExpression
                        (PropertyAccessExpression namespaceImport (Identifier ''Input'' orig))
                        None as)
                   # rest)
         \<and> orig = (case decoratorIdentifier decorator of
                      PlainIdentifier i \<Rightarrow> Some i
                    | NamespacedIdentifier e n \<Rightarrow> Some e)"
  using transform_rewrite [OF assms, of decorator]
  by (cases "decoratorIdentifier decorator") (simp_all add: newDecorator_shape)

theorem provenance_source_by_identifier_kind_witness:
  "\<exists>out as rest.
     signalInputsTransform scenarioEnvironment idMember () []
         namespacedComponentDecorator False
       = Inr (out, [(''@angular/core'', freshImport 0)])
     \<and> modifiers out =
         Some (Decorator
                 (CallExpression
                    (PropertyAccessExpression (IdentifierExpression (freshImport 0))
                       (Identifier ''Input'' (Some (Identifier ''core'' None))))
                    None as)
               # rest)"
proof -
  let ?env = "scenarioEnvironment"
  have h1: "hasInputDecorator ?env () idMember False = Inr False"
    by (simp add: scenario_defs)
  have h2: "tryParseSignalInputMapping ?env
              (ClassMember (property_name_text (name idMember)) (initializer idMember)) () False
            = Inr (Some \<lparr>bindingPropertyName = ''id'', required = True, transform = None\<rparr>)"
    by (simp add: scenario_defs)
  have h3: "generateNamespaceImport ?env [] ''@angular/core''
            = Inr (IdentifierExpression (freshImport 0), [(''@angular/core'', freshImport 0)])"
    by (simp add: scenarioEnvironment_def specEnvironment_def namespaceImportFor_def)
  show ?thesis
    using provenance_source_by_identifier_kind [OF h1 h2 h3, of namespacedComponentDecorator]
    by (auto simp add: namespacedComponentDecorator_def)
qed

text \<open>
  C10. When the host's decorator query returns no list at all, the presence check is
  false without a throw, and the transform goes on to the parser: what the parser throws
  leaves the transform, no match returns the member, and a match leads to the rewritten
  declaration, rebuilt from the member's name, question token, type and initializer.
\<close>

theorem absent_decorator_list_proceeds:
  assumes "getDecoratorsOfDeclaration env host member = Inr None"
  shows "hasInputDecorator env host member isCore = Inr False
         \<and> signalInputsTransform env member host importManager decorator isCore =
             (case tryParseSignalInputMapping env
                     (ClassMember (property_name_text (name member)) (initializer member))
                     host isCore of
                Inl e \<Rightarrow> Inl e
              | Inr None \<Rightarrow> Inr (member, importManager)
              | Inr (Some inputMapping) \<Rightarrow>
                  (case generateNamespaceImport env importManager ''@angular/core'' of
                     Inl e \<Rightarrow> Inl e
                   | Inr (namespaceImport, importManager') \<Rightarrow>
                       Inr (member\<lparr>modifiers :=
                              Some (newDecorator namespaceImport decorator inputMapping
                                    # (case modifiers member of None \<Rightarrow> [] | Some ms \<Rightarrow> ms)),
                              exclamationToken := None\<rparr>,
                            importManager')))"
  using hasInputDecorator_absent [OF assms, of isCore]
  by (simp add: signalInputsTransform_def updatePropertyDeclaration_member
      split: sum.splits option.splits)

theorem absent_decorator_list_proceeds_witness:
  "getDecoratorsOfDeclaration scenarioEnvironment () idMember = Inr None
   \<and> hasInputDecorator scenarioEnvironment () idMember False = Inr False
   \<and> signalInputsTransform scenarioEnvironment idMember () [] componentDecorator False
      = Inr (idMember\<lparr>modifiers :=
               Some [newDecorator (IdentifierExpression (freshImport 0)) componentDecorator
                       \<lparr>bindingPropertyName = ''id'', required = True, transform = None\<rparr>]\<rparr>,
             [(''@angular/core'', freshImport 0)])"
proof -
  let ?env = "scenarioEnvironment"
  have h: "getDecoratorsOfDeclaration ?env () idMember = Inr None"
    by (simp add: scenario_defs)
  have p: "tryParseSignalInputMapping ?env
              (ClassMember (property_name_text (name idMember)) (initializer idMember)) () False
            = Inr (Some \<lparr>bindingPropertyName = ''id'', required = True, transform = None\<rparr>)"
    by (simp add: scenario_defs)
  have g: "generateNamespaceImport ?env [] ''@angular/core''
            = Inr (IdentifierExpression (freshImport 0), [(''@angular/core'', freshImport 0)])"
    by (simp add: scenarioEnvironment_def specEnvironment_def namespaceImportFor_def)
  have m: "modifiers idMember = None"
    by (simp add: idMember_def)
  have x: "idMember\<lparr>modifiers := ms, exclamationToken := None\<rparr> = idMember\<lparr>modifiers := ms\<rparr>"
    for ms
    by (simp add: idMember_def)
  show ?thesis
    using h absent_decorator_list_proceeds [OF h, of False "[]" componentDecorator]
    by (simp add: p g m x)
qed

end
